theory Spec2Isabelle
  imports Main "HOL-Library.Char_ord" "HOL-Library.List_Lexorder" "HOL-Library.Product_Lexorder"
begin

section \<open>The Olympic medals dashboard (app_dash.py)\<close>

text \<open>
  The script loads a table of medal counts, prepares it once at module level, and registers
  four callbacks that turn dropdown values into chart specifications. The embedding follows
  the script top to bottom: the prepared table and the two dropdown lists, then the four
  callbacks, then the runtime that invokes them.

  Modelling decisions, all read off the source:
  \<^item> a row of the table is a record with the eight columns the script requires; the model
    starts from a table that has passed the column check of lines 18-23, every cell present.
    The medal columns are integers (\<open>int\<close>); no claim below depends on the width of the
    machine integers the table library stores them in;
  \<^item> a text is a list of bytes, the UTF-8 encoding of the Python string; the order of
    \<open>HOL-Library.List_Lexorder\<close> over \<open>HOL-Library.Char_ord\<close> is then the code point
    order Python's \<open>sorted\<close> uses;
  \<^item> a dropdown value is None, a string or an integer (\<open>pyval\<close>);
  \<^item> a figure records what the script hands to the plotting library: the kind of plot, the
    title, the annotations, the table plotted and the styling arguments;
  \<^item> a raised exception is a value \<open>Inl e\<close>.
\<close>

subsection \<open>Python values and strings\<close>

datatype pyval = PyNone | PyStr string | PyInt int

datatype error = KeyError pyval

text \<open>Truthiness, as \<open>if not selected_country\<close> tests it.\<close>

fun truthy :: "pyval \<Rightarrow> bool" where
  "truthy PyNone = False"
| "truthy (PyStr s) = (s \<noteq> [])"
| "truthy (PyInt i) = (i \<noteq> 0)"

definition digit_char :: "nat \<Rightarrow> char" where
  "digit_char d = char_of (48 + d)"

function str_nat :: "nat \<Rightarrow> string" where
  "str_nat n = (if n < 10 then [digit_char n] else str_nat (n div 10) @ [digit_char (n mod 10)])"
  by pat_completeness auto
termination
  by (relation "measure (\<lambda>n. n)") auto

declare str_nat.simps [simp del]

definition str_int :: "int \<Rightarrow> string" where
  "str_int i = (if i < 0 then CHR ''-'' # str_nat (nat (- i)) else str_nat (nat i))"

text \<open>\<open>str(v)\<close>, which is also what an f-string field \<open>{v}\<close> prints.\<close>

fun py_str :: "pyval \<Rightarrow> string" where
  "py_str PyNone = ''None''"
| "py_str (PyStr s) = s"
| "py_str (PyInt i) = str_int i"

text \<open>\<open>s.replace("_", " ")\<close>: every underscore becomes a space.\<close>

definition replace_underscore :: "string \<Rightarrow> string" where
  "replace_underscore s = map (\<lambda>c. if c = CHR ''_'' then CHR '' '' else c) s"

text \<open>The accented letters of the Portuguese texts, in UTF-8.\<close>

definition i_acute :: string where "i_acute = [CHR 0xC3, CHR 0xAD]"
definition a_tilde :: string where "a_tilde = [CHR 0xC3, CHR 0xA3]"
definition c_cedilla :: string where "c_cedilla = [CHR 0xC3, CHR 0xA7]"

definition pais :: string where "pais = ''pa'' @ i_acute @ ''s''"
definition paises :: string where "paises = ''pa'' @ i_acute @ ''ses''"

subsection \<open>The table\<close>

record raw_record =
  Year :: int
  Host_country :: string
  Host_city :: string
  Country_Name :: string
  Country_Code :: string
  Gold :: int
  Silver :: int
  Bronze :: int

text \<open>Line 32 adds the column \<open>Total_Medals\<close> to the filtered copy.\<close>

record medal_record = raw_record +
  Total_Medals :: int

text \<open>
  Line 26: \<open>Series.replace\<close> with two strings rewrites the cells that are equal to the
  first one; a cell that merely contains it is left alone.
\<close>

definition replace_country :: "raw_record \<Rightarrow> raw_record" where
  "replace_country r =
     (if Country_Name r = ''United States''
      then r\<lparr>Country_Name := ''United States of America''\<rparr> else r)"

definition make_df_full :: "raw_record list \<Rightarrow> raw_record list" where
  "make_df_full csv = map replace_country csv"

definition add_total :: "raw_record \<Rightarrow> medal_record" where
  "add_total r =
     \<lparr>Year = Year r, Host_country = Host_country r, Host_city = Host_city r,
      Country_Name = Country_Name r, Country_Code = Country_Code r,
      Gold = Gold r, Silver = Silver r, Bronze = Bronze r,
      Total_Medals = Gold r + Silver r + Bronze r\<rparr>"

text \<open>Lines 29 and 32: the rows of 1992 to 2020, with the derived column.\<close>

definition make_df :: "raw_record list \<Rightarrow> medal_record list" where
  "make_df csv =
     map add_total (filter (\<lambda>r. 1992 \<le> Year r \<and> Year r \<le> 2020) (make_df_full csv))"

text \<open>
  \<open>Series.unique\<close> and \<open>DataFrame.drop_duplicates\<close> keep the first occurrence of every
  value, in the order of appearance.
\<close>

fun drop_duplicates :: "'a list \<Rightarrow> 'a list" where
  "drop_duplicates [] = []"
| "drop_duplicates (x # xs) = x # drop_duplicates (filter (\<lambda>y. y \<noteq> x) xs)"

definition make_all_countries :: "medal_record list \<Rightarrow> string list" where
  "make_all_countries d = sort (drop_duplicates (map Country_Name d))"


text \<open>
  Line 39: the distinct (Year, Host_city, Host_country) triples, sorted by Year. Rows of
  equal Year keep their order of appearance here; the library does not promise an order
  among them, and no statement below depends on it.
\<close>

definition make_year_host_info :: "medal_record list \<Rightarrow> (int \<times> string \<times> string) list" where
  "make_year_host_info d =
     sort_key fst (drop_duplicates (map (\<lambda>r. (Year r, Host_city r, Host_country r)) d))"

record year_option =
  opt_label :: string
  opt_value :: pyval

definition year_option_of :: "int \<times> string \<times> string \<Rightarrow> year_option" where
  "year_option_of t =
     (case t of (y, city, country) \<Rightarrow>
        \<lparr>opt_label = str_int y @ '' - '' @ city @ '', '' @ country, opt_value = PyInt y\<rparr>)"

definition make_year_options :: "medal_record list \<Rightarrow> year_option list" where
  "make_year_options d =
     \<lparr>opt_label = ''Todos os anos (1992-2020)'', opt_value = PyStr ''All''\<rparr>
       # map year_option_of (make_year_host_info d)"

text \<open>The module-level names the callbacks read.\<close>

record dashboard =
  df :: "medal_record list"
  all_countries :: "string list"
  year_options :: "year_option list"

definition startup :: "raw_record list \<Rightarrow> dashboard" where
  "startup csv =
     (let d = make_df csv
      in \<lparr>df = d, all_countries = make_all_countries d, year_options = make_year_options d\<rparr>)"

subsection \<open>The table operations the callbacks use\<close>

text \<open>
  \<open>groupby(key)[col].sum()\<close>: one row per distinct key, in ascending key order, holding
  the sum of the column over the rows of that key.
\<close>

definition groupby_sum :: "('r \<Rightarrow> 'k::linorder) \<Rightarrow> ('r \<Rightarrow> int) \<Rightarrow> 'r list \<Rightarrow> ('k \<times> int) list" where
  "groupby_sum key col rows =
     map (\<lambda>k. (k, sum_list (map col (filter (\<lambda>r. key r = k) rows))))
       (sort (remdups (map key rows)))"

text \<open>
  \<open>nlargest(n)\<close> with the default \<open>keep='first'\<close>: the first n rows in descending order
  of the value, rows of equal value in their order of appearance. The data frame method on
  one column and the series method are the same selection.
\<close>

definition nlargest :: "nat \<Rightarrow> ('r \<Rightarrow> int) \<Rightarrow> 'r list \<Rightarrow> 'r list" where
  "nlargest n col rows = take n (sort_key (\<lambda>r. - col r) rows)"

text \<open>
  \<open>frame[medal_col]\<close> after a groupby: the dropdown offers the four names of
  \<open>medal_types\<close>, each a numeric column of the prepared table. Any other value is
  reported as the KeyError the library raises for a name that is not a column.
\<close>

definition medal_column :: "string \<Rightarrow> (medal_record \<Rightarrow> int) option" where
  "medal_column name =
     (if name = ''Gold'' then Some Gold
      else if name = ''Silver'' then Some Silver
      else if name = ''Bronze'' then Some Bronze
      else if name = ''Total_Medals'' then Some Total_Medals
      else None)"

definition select_column :: "pyval \<Rightarrow> error + (string \<times> (medal_record \<Rightarrow> int))" where
  "select_column v =
     (case v of
        PyStr name \<Rightarrow>
          (case medal_column name of Some col \<Rightarrow> Inr (name, col) | None \<Rightarrow> Inl (KeyError v))
      | _ \<Rightarrow> Inl (KeyError v))"

subsection \<open>Figures\<close>

datatype plot_kind = Pie | Choropleth | Area | Bar

datatype chart_data =
    NoData
  | Counts "(string \<times> int) list"
  | YearCounts "(string \<times> int \<times> int) list"

record figure =
  kind :: plot_kind
  title :: string
  annotations :: "string list"
  frame :: chart_data
  value_column :: "string option"
  axis_labels :: "(string \<times> string) list"
  color_discrete_map :: "(string \<times> string) list"
  marker_color :: "string option"
  textinfo :: "string option"
  xaxis_type :: "string option"

text \<open>\<open>px.pie(title=t)\<close> followed by \<open>update_layout(annotations=[dict(text=a, ...)])\<close>.\<close>

definition placeholder_pie :: "string \<Rightarrow> string \<Rightarrow> figure" where
  "placeholder_pie t a =
     \<lparr>kind = Pie, title = t, annotations = [a], frame = NoData, value_column = None,
      axis_labels = [], color_discrete_map = [], marker_color = None, textinfo = None,
      xaxis_type = None\<rparr>"



subsection \<open>The four callbacks\<close>

definition update_pie_chart :: "dashboard \<Rightarrow> pyval \<Rightarrow> error + figure" where
  "update_pie_chart s selected_country =
     (if \<not> truthy selected_country then
        Inr (placeholder_pie (''Por favor, selecione um '' @ pais)
               (''Nenhum '' @ pais @ '' selecionado''))
      else
        let country_data = filter (\<lambda>r. PyStr (Country_Name r) = selected_country) (df s)
        in if country_data = [] then
             Inr (placeholder_pie (''Sem dados para '' @ py_str selected_country @ '' (1992-2020)'')
                    (''Dados n'' @ a_tilde @ ''o dispon'' @ i_acute @ ''veis''))
           else
             Inr \<lparr>kind = Pie,
                  title = ''Distribui'' @ c_cedilla @ a_tilde @ ''o de Medalhas de ''
                            @ py_str selected_country @ '' (1992-2020)'',
                  annotations = [],
                  frame = Counts [(''Ouro'', sum_list (map Gold country_data)),
                                  (''Prata'', sum_list (map Silver country_data)),
                                  (''Bronze'', sum_list (map Bronze country_data))],
                  value_column = Some ''Quantidade'',
                  axis_labels = [],
                  color_discrete_map =
                    [(''Ouro'', ''gold''), (''Prata'', ''silver''), (''Bronze'', ''#cd7f32'')],
                  marker_color = None,
                  textinfo = Some ''percent+label+value'',
                  xaxis_type = None\<rparr>)"

definition update_map_chart :: "dashboard \<Rightarrow> pyval \<Rightarrow> error + figure" where
  "update_map_chart s selected_medal_type =
     (case select_column selected_medal_type of
        Inl e \<Rightarrow> Inl e
      | Inr (medal_col, col) \<Rightarrow>
          let map_data = groupby_sum Country_Name col (df s)
          in Inr \<lparr>kind = Choropleth,
                  title = ''Total de '' @ replace_underscore medal_col @ '' por '' @ pais
                            @ '' (1992-2020)'',
                  annotations = [],
                  frame = Counts map_data,
                  value_column = Some medal_col,
                  axis_labels = [],
                  color_discrete_map = [],
                  marker_color = None,
                  textinfo = None,
                  xaxis_type = None\<rparr>)"

text \<open>Line 151: the index of the ten largest per-country totals over the whole table.\<close>

definition top_10_countries_overall :: "medal_record list \<Rightarrow> (medal_record \<Rightarrow> int) \<Rightarrow> string list" where
  "top_10_countries_overall d col = map fst (nlargest 10 snd (groupby_sum Country_Name col d))"

definition update_area_chart :: "dashboard \<Rightarrow> pyval \<Rightarrow> error + figure" where
  "update_area_chart s selected_medal_type =
     (case select_column selected_medal_type of
        Inl e \<Rightarrow> Inl e
      | Inr (medal_col, col) \<Rightarrow>
          let df_country_year_medals =
                map (\<lambda>((c, y), v). (c, y, v))
                  (groupby_sum (\<lambda>r. (Country_Name r, Year r)) col (df s));
              top_10 = top_10_countries_overall (df s) col;
              df_top_10 = filter (\<lambda>(c, y, v). c \<in> set top_10) df_country_year_medals
          in Inr \<lparr>kind = Area,
                  title = ''Top 10 '' @ paises @ '' por '' @ replace_underscore medal_col
                            @ '' (1992-2020)'',
                  annotations = [],
                  frame = YearCounts df_top_10,
                  value_column = Some medal_col,
                  axis_labels = [(medal_col, replace_underscore medal_col @ '' conquistadas'')],
                  color_discrete_map = [],
                  marker_color = None,
                  textinfo = None,
                  xaxis_type = Some ''category''\<rparr>)"

text \<open>
  Lines 173-180: the year segment of the bar chart's title. \<open>next(..., None)\<close> is the
  first option whose value equals the selection; an option is a non-empty dict, hence true.
\<close>

definition year_title_segment :: "year_option list \<Rightarrow> pyval \<Rightarrow> string" where
  "year_title_segment opts selected_year_value =
     (if selected_year_value \<noteq> PyStr ''All'' then
        (case find (\<lambda>item. opt_value item = selected_year_value) opts of
           Some year_label_info_obj \<Rightarrow> opt_label year_label_info_obj
         | None \<Rightarrow> py_str selected_year_value)
      else ''Todos os anos (1992-2020)'')"

text \<open>Lines 171-175: the rows the bar chart aggregates.\<close>

definition current_df_bar :: "medal_record list \<Rightarrow> pyval \<Rightarrow> medal_record list" where
  "current_df_bar d selected_year_value =
     (if selected_year_value \<noteq> PyStr ''All''
      then filter (\<lambda>r. PyInt (Year r) = selected_year_value) d
      else d)"

definition bar_color_val :: "string \<Rightarrow> string option" where
  "bar_color_val medal_col =
     (if medal_col = ''Gold'' then Some ''gold''
      else if medal_col = ''Silver'' then Some ''silver''
      else if medal_col = ''Bronze'' then Some ''#cd7f32''
      else None)"

definition update_bar_chart :: "dashboard \<Rightarrow> pyval \<Rightarrow> pyval \<Rightarrow> error + figure" where
  "update_bar_chart s selected_medal_type selected_year_value =
     (case select_column selected_medal_type of
        Inl e \<Rightarrow> Inl e
      | Inr (medal_col, col) \<Rightarrow>
          let df_grouped_bar =
                nlargest 10 snd
                  (groupby_sum Country_Name col (current_df_bar (df s) selected_year_value))
          in Inr \<lparr>kind = Bar,
                  title = ''Top 10 '' @ paises @ '' por '' @ replace_underscore medal_col
                            @ '' em '' @ year_title_segment (year_options s) selected_year_value,
                  annotations = [],
                  frame = Counts df_grouped_bar,
                  value_column = Some medal_col,
                  axis_labels = [(''Country_Name'', ''Pa'' @ i_acute @ ''s''),
                                 (medal_col, replace_underscore medal_col)],
                  color_discrete_map = [],
                  marker_color = bar_color_val medal_col,
                  textinfo = None,
                  xaxis_type = None\<rparr>)"

subsection \<open>The runtime\<close>

text \<open>
  The framework calls one callback per event with the current dropdown values. A callback
  reads the module-level names and assigns none of them, so the step hands the dashboard on
  as it received it.
\<close>

datatype event =
    PieEvent pyval
  | MapEvent pyval
  | AreaEvent pyval
  | BarEvent pyval pyval

fun invoke :: "dashboard \<Rightarrow> event \<Rightarrow> (error + figure) \<times> dashboard" where
  "invoke s (PieEvent country) = (update_pie_chart s country, s)"
| "invoke s (MapEvent medal) = (update_map_chart s medal, s)"
| "invoke s (AreaEvent medal) = (update_area_chart s medal, s)"
| "invoke s (BarEvent medal year) = (update_bar_chart s medal year, s)"

fun run :: "dashboard \<Rightarrow> event list \<Rightarrow> (error + figure) list \<times> dashboard" where
  "run s [] = ([], s)"
| "run s (e # es) =
     (case invoke s e of (out, s') \<Rightarrow>
        (case run s' es of (outs, s'') \<Rightarrow> (out # outs, s'')))"

subsection \<open>A small table for concrete checks\<close>

definition example_csv :: "raw_record list" where
  "example_csv =
     [\<lparr>Year = 2016, Host_country = ''Brazil'', Host_city = ''Rio de Janeiro'',
       Country_Name = ''United States'', Country_Code = ''USA'',
       Gold = 46, Silver = 37, Bronze = 38\<rparr>,
      \<lparr>Year = 2016, Host_country = ''Brazil'', Host_city = ''Rio de Janeiro'',
       Country_Name = ''Brazil'', Country_Code = ''BRA'',
       Gold = 7, Silver = 6, Bronze = 6\<rparr>,
      \<lparr>Year = 1988, Host_country = ''South Korea'', Host_city = ''Seoul'',
       Country_Name = ''Brazil'', Country_Code = ''BRA'',
       Gold = 1, Silver = 2, Bronze = 3\<rparr>,
      \<lparr>Year = 2008, Host_country = ''China'', Host_city = ''Beijing'',
       Country_Name = ''China'', Country_Code = ''CHN'',
       Gold = 48, Silver = 22, Bronze = 30\<rparr>]"

text \<open>The first row of \<open>example_csv\<close> as the prepared table holds it.\<close>

definition example_row :: medal_record where
  "example_row =
     \<lparr>Year = 2016, Host_country = ''Brazil'', Host_city = ''Rio de Janeiro'',
      Country_Name = ''United States of America'', Country_Code = ''USA'',
      Gold = 46, Silver = 37, Bronze = 38, Total_Medals = 121\<rparr>"

section \<open>Properties\<close>

subsection \<open>Lists without duplicates, grouping, selection\<close>

lemma set_drop_duplicates: "set (drop_duplicates xs) = set xs"
  by (induction xs rule: drop_duplicates.induct) auto

lemma distinct_drop_duplicates: "distinct (drop_duplicates xs)"
  by (induction xs rule: drop_duplicates.induct) (auto simp: set_drop_duplicates)






subsection \<open>The runtime keeps the dashboard\<close>

lemma invoke_state: "snd (invoke s e) = s"
  by (cases e) simp_all

lemma run_state: "snd (run s h) = s"
  by (induction h) (auto split: prod.splits elim: invoke.elims)

subsection \<open>Columns, rows of a year, options\<close>







lemma replace_country_name:
  "Country_Name (replace_country r)
     = (if Country_Name r = ''United States'' then ''United States of America''
        else Country_Name r)"
  by (simp add: replace_country_def)

subsection \<open>The example table, evaluated\<close>

lemma example_df:
  "df (startup example_csv) =
     [example_row,
      \<lparr>Year = 2016, Host_country = ''Brazil'', Host_city = ''Rio de Janeiro'',
       Country_Name = ''Brazil'', Country_Code = ''BRA'',
       Gold = 7, Silver = 6, Bronze = 6, Total_Medals = 19\<rparr>,
      \<lparr>Year = 2008, Host_country = ''China'', Host_city = ''Beijing'',
       Country_Name = ''China'', Country_Code = ''CHN'',
       Gold = 48, Silver = 22, Bronze = 30, Total_Medals = 100\<rparr>]"
  by (simp add: startup_def Let_def make_df_def make_df_full_def example_csv_def
      replace_country_def add_total_def example_row_def)






section \<open>The claims\<close>








text \<open>
  C5. The pie callback returns a figure for every country value, never an exception. With no
  country selected (None or the empty string) it returns a placeholder pie whose annotation
  says that no country is selected; with a selected country that has no row in the prepared
  table it returns a placeholder pie with another annotation, saying that no data is
  available. A placeholder carries its annotation and no data.
\<close>

theorem pie_degrades_to_placeholder:
  "(\<exists>fig. update_pie_chart s c = Inr fig)
   \<and> (\<not> truthy c \<longrightarrow>
        update_pie_chart s c
          = Inr (placeholder_pie (''Por favor, selecione um '' @ pais)
                   (''Nenhum '' @ pais @ '' selecionado'')))
   \<and> (truthy c \<and> (\<forall>r \<in> set (df s). PyStr (Country_Name r) \<noteq> c) \<longrightarrow>
        update_pie_chart s c
          = Inr (placeholder_pie (''Sem dados para '' @ py_str c @ '' (1992-2020)'')
                   (''Dados n'' @ a_tilde @ ''o dispon'' @ i_acute @ ''veis'')))
   \<and> ''Nenhum '' @ pais @ '' selecionado''
        \<noteq> ''Dados n'' @ a_tilde @ ''o dispon'' @ i_acute @ ''veis''
   \<and> frame (placeholder_pie t a) = NoData
   \<and> annotations (placeholder_pie t a) = [a]"
proof -
  have total: "\<exists>fig. update_pie_chart s c = Inr fig"
    by (simp add: update_pie_chart_def Let_def)
  have none: "\<not> truthy c \<longrightarrow>
        update_pie_chart s c
          = Inr (placeholder_pie (''Por favor, selecione um '' @ pais)
                   (''Nenhum '' @ pais @ '' selecionado''))"
    by (simp add: update_pie_chart_def)
  have empty: "truthy c \<and> (\<forall>r \<in> set (df s). PyStr (Country_Name r) \<noteq> c) \<longrightarrow>
        update_pie_chart s c
          = Inr (placeholder_pie (''Sem dados para '' @ py_str c @ '' (1992-2020)'')
                   (''Dados n'' @ a_tilde @ ''o dispon'' @ i_acute @ ''veis''))"
    by (auto simp: update_pie_chart_def Let_def filter_empty_conv)
  have differ: "''Nenhum '' @ pais @ '' selecionado''
                  \<noteq> ''Dados n'' @ a_tilde @ ''o dispon'' @ i_acute @ ''veis''"
    by simp
  have ph: "frame (placeholder_pie t a) = NoData" "annotations (placeholder_pie t a) = [a]"
    by (simp_all add: placeholder_pie_def)
  from total none empty differ ph show ?thesis by blast
qed

theorem pie_degrades_to_placeholder_witness:
  "\<not> truthy PyNone
   \<and> update_pie_chart (startup example_csv) PyNone
       = Inr (placeholder_pie (''Por favor, selecione um '' @ pais)
                (''Nenhum '' @ pais @ '' selecionado''))
   \<and> truthy (PyStr ''Atlantis'')
   \<and> update_pie_chart (startup example_csv) (PyStr ''Atlantis'')
       = Inr (placeholder_pie ''Sem dados para Atlantis (1992-2020)''
                (''Dados n'' @ a_tilde @ ''o dispon'' @ i_acute @ ''veis''))"
proof -
  have none: "\<not> truthy PyNone" by simp
  have sel: "truthy (PyStr ''Atlantis'')" by simp
  have norows: "\<forall>r \<in> set (df (startup example_csv)). PyStr (Country_Name r) \<noteq> PyStr ''Atlantis''"
    by (simp add: example_df example_row_def)
  from pie_degrades_to_placeholder [of "startup example_csv" PyNone] none
    pie_degrades_to_placeholder [of "startup example_csv" "PyStr ''Atlantis''"] sel norows
  show ?thesis by simp
qed







text \<open>
  C9. The year options are built at startup and no callback changes them. The first option
  is the sentinel, with value "All" and the all-years label (in the script's Portuguese,
  "Todos os anos (1992-2020)"). The options after it come, in order, from the distinct
  (Year, Host_city, Host_country) triples of the prepared table sorted by Year ascending:
  each has the Year as its value and "{year} - {city}, {country}" as its label.
\<close>

theorem year_options_built:
  "year_options (startup csv)
     = \<lparr>opt_label = ''Todos os anos (1992-2020)'', opt_value = PyStr ''All''\<rparr>
         # map (\<lambda>(y, city, country).
                  \<lparr>opt_label = str_int y @ '' - '' @ city @ '', '' @ country,
                   opt_value = PyInt y\<rparr>)
             (make_year_host_info (df (startup csv)))
   \<and> set (make_year_host_info d) = (\<lambda>r. (Year r, Host_city r, Host_country r)) ` set d
   \<and> distinct (make_year_host_info d)
   \<and> sorted (map fst (make_year_host_info d))
   \<and> year_options (snd (run (startup csv) h)) = year_options (startup csv)"
proof -
  have "year_option_of = (\<lambda>(y, city, country).
          \<lparr>opt_label = str_int y @ '' - '' @ city @ '', '' @ country, opt_value = PyInt y\<rparr>)"
    by (auto simp: year_option_of_def fun_eq_iff)
  then have a: "year_options (startup csv)
     = \<lparr>opt_label = ''Todos os anos (1992-2020)'', opt_value = PyStr ''All''\<rparr>
         # map (\<lambda>(y, city, country).
                  \<lparr>opt_label = str_int y @ '' - '' @ city @ '', '' @ country,
                   opt_value = PyInt y\<rparr>)
             (make_year_host_info (df (startup csv)))"
    by (simp add: startup_def Let_def make_year_options_def)
  have b: "set (make_year_host_info d) = (\<lambda>r. (Year r, Host_city r, Host_country r)) ` set d"
    by (simp add: make_year_host_info_def set_drop_duplicates)
  have c: "distinct (make_year_host_info d)"
    by (simp add: make_year_host_info_def distinct_drop_duplicates)
  have e: "sorted (map fst (make_year_host_info d))"
    by (simp add: make_year_host_info_def)
  have f: "year_options (snd (run (startup csv) h)) = year_options (startup csv)"
    by (simp add: run_state)
  from a b c e f show ?thesis by blast
qed

theorem year_options_built_witness:
  "year_options (startup example_csv) =
     [\<lparr>opt_label = ''Todos os anos (1992-2020)'', opt_value = PyStr ''All''\<rparr>,
      \<lparr>opt_label = ''2008 - Beijing, China'', opt_value = PyInt 2008\<rparr>,
      \<lparr>opt_label = ''2016 - Rio de Janeiro, Brazil'', opt_value = PyInt 2016\<rparr>]
   \<and> make_year_host_info (df (startup example_csv))
       = [(2008, ''Beijing'', ''China''), (2016, ''Rio de Janeiro'', ''Brazil'')]"
proof -
  have info: "make_year_host_info (df (startup example_csv))
                = [(2008, ''Beijing'', ''China''), (2016, ''Rio de Janeiro'', ''Brazil'')]"
    by code_simp
  have "str_int 2008 = ''2008''" "str_int 2016 = ''2016''" by code_simp+
  with year_options_built [of example_csv] info show ?thesis by simp
qed

text \<open>
  C10. Loading rewrites every Country_Name cell that is "United States" to "United States
  of America" and leaves the other cells as they are; the year filter and everything after
  it work on the rewritten table (the prepared table is the filter of the rewritten one). So no row of the loaded table, no row of the prepared
  table and no entry of the sorted country list is "United States".
\<close>

theorem united_states_rewritten:
  "map Country_Name (make_df_full csv)
     = map (\<lambda>r. if Country_Name r = ''United States'' then ''United States of America''
                 else Country_Name r) csv
   \<and> (\<forall>r \<in> set (make_df_full csv). Country_Name r \<noteq> ''United States'')
   \<and> df (startup csv)
       = map add_total (filter (\<lambda>r. 1992 \<le> Year r \<and> Year r \<le> 2020) (make_df_full csv))
   \<and> (\<forall>r \<in> set (df (startup csv)). Country_Name r \<noteq> ''United States'')
   \<and> ''United States'' \<notin> set (all_countries (startup csv))"
proof -
  have a: "map Country_Name (make_df_full csv)
     = map (\<lambda>r. if Country_Name r = ''United States'' then ''United States of America''
                 else Country_Name r) csv"
    by (simp add: make_df_full_def replace_country_name)
  have b: "\<forall>r \<in> set (make_df_full csv). Country_Name r \<noteq> ''United States''"
    by (auto simp: make_df_full_def replace_country_name)
  have c: "\<forall>r \<in> set (make_df csv). Country_Name r \<noteq> ''United States''"
    using b by (auto simp: make_df_def add_total_def)
  have d: "''United States'' \<notin> set (make_all_countries (make_df csv))"
    using c by (auto simp: make_all_countries_def set_drop_duplicates)
  have e: "df (startup csv)
       = map add_total (filter (\<lambda>r. 1992 \<le> Year r \<and> Year r \<le> 2020) (make_df_full csv))"
    by (simp add: startup_def Let_def make_df_def)
  have c': "\<forall>r \<in> set (df (startup csv)). Country_Name r \<noteq> ''United States''"
    using c by (simp add: startup_def Let_def)
  have d': "''United States'' \<notin> set (all_countries (startup csv))"
    using d by (simp add: startup_def Let_def)
  from a b e c' d' show ?thesis by blast
qed

theorem united_states_rewritten_witness:
  "example_row \<in> set (df (startup example_csv))
   \<and> Country_Name example_row \<noteq> ''United States''
   \<and> map Country_Name (make_df_full example_csv)
       = [''United States of America'', ''Brazil'', ''Brazil'', ''China'']"
proof -
  have mem: "example_row \<in> set (df (startup example_csv))" by (simp add: example_df)
  from united_states_rewritten [of example_csv] mem show ?thesis
    by (simp add: example_csv_def)
qed

end
